theory Spec2Isabelle
  imports Main "HOL-Library.Word"
begin

section \<open>The ollama\_chat processor (internal/impl/ollama/chat\_processor.go)\<close>

subsection \<open>Bytes, strings and errors\<close>

text \<open>
  A Go \<open>byte\<close> is an 8-bit word. A Go \<open>string\<close> is an immutable sequence of bytes,
  written here as a HOL \<open>string\<close> (one \<open>char\<close> per byte). The conversions
  \<open>string(b)\<close> and \<open>[]byte(s)\<close> copy the bytes one by one and change none.
\<close>

type_synonym byte = "8 word"

definition string_of_bytes :: "byte list \<Rightarrow> string" where
  "string_of_bytes b = map (\<lambda>w. char_of (unat w)) b"

definition bytes_of_string :: "string \<Rightarrow> byte list" where
  "bytes_of_string s = map (\<lambda>c. word_of_nat (of_char c)) s"

text \<open>
  A Go \<open>error\<close> is known to this code by its message only (\<open>err.Error()\<close>).
  \<open>errors.New(text)\<close> builds the error with that message.
\<close>

datatype error = GoError string

fun Error_msg :: "error \<Rightarrow> string" where
  "Error_msg (GoError s) = s"

definition errors_New :: "string \<Rightarrow> error" where
  "errors_New text = GoError text"

subsection \<open>unicode/utf8.Valid\<close>

text \<open>
  The standard library's \<open>utf8.Valid\<close>, as its table-driven loop decides it: an ASCII
  byte is one rune; a leading byte \<open>0xC2..0xF4\<close> fixes the size of the encoding and the
  range accepted for the second byte (which excludes overlong forms, surrogates and code
  points above \<open>U+10FFFF\<close>); every further byte is a continuation byte \<open>0x80..0xBF\<close>;
  an encoding cut short by the end of the input is invalid.
\<close>

text \<open>\<open>first[p]\<close> with \<open>acceptRanges\<close>: size, and lowest and highest second byte;
  \<open>None\<close> is the table's \<open>xx\<close> (illegal leading byte).\<close>

definition utf8_first :: "byte \<Rightarrow> (nat \<times> byte \<times> byte) option" where
  "utf8_first p =
     (if p < 0xC2 then None
      else if p \<le> 0xDF then Some (2, 0x80, 0xBF)
      else if p = 0xE0 then Some (3, 0xA0, 0xBF)
      else if p = 0xED then Some (3, 0x80, 0x9F)
      else if p \<le> 0xEF then Some (3, 0x80, 0xBF)
      else if p = 0xF0 then Some (4, 0x90, 0xBF)
      else if p \<le> 0xF3 then Some (4, 0x80, 0xBF)
      else if p = 0xF4 then Some (4, 0x80, 0x8F)
      else None)"

definition utf8_cont :: "byte \<Rightarrow> bool" where
  "utf8_cont c = (0x80 \<le> c \<and> c \<le> 0xBF)"

fun utf8_Valid :: "byte list \<Rightarrow> bool" where
  "utf8_Valid [] = True"
| "utf8_Valid (p # ps) =
     (if p < 0x80 then utf8_Valid ps
      else (case utf8_first p of
              None \<Rightarrow> False
            | Some (sz, lo, hi) \<Rightarrow>
                if Suc (length ps) < sz then False
                else if ps ! 0 < lo \<or> hi < ps ! 0 then False
                else if sz = 2 then utf8_Valid (drop 1 ps)
                else if \<not> utf8_cont (ps ! 1) then False
                else if sz = 3 then utf8_Valid (drop 2 ps)
                else if \<not> utf8_cont (ps ! 2) then False
                else utf8_Valid (drop 3 ps)))"

subsection \<open>Messages\<close>

text \<open>
  A \<open>service.Message\<close> carries a payload and metadata. The payload is either raw bytes
  or a structured value; \<open>AsBytes\<close> returns raw bytes as they are and serialises a
  structured value, which can fail. A structured value is represented by what
  serialising it gives.
\<close>

datatype body = RawBytes "byte list" | Structured "error + byte list"

record message =
  body :: body
  metadata :: "(string \<times> string) list"

fun AsBytes :: "message \<Rightarrow> error + byte list" where
  "AsBytes m = (case body m of RawBytes b \<Rightarrow> Inr b | Structured r \<Rightarrow> r)"

text \<open>
  A compiled \<open>service.InterpolatedString\<close> is the function that \<open>TryString\<close>
  evaluates on a message: the text, or an evaluation error.
\<close>

type_synonym InterpolatedString = "message \<Rightarrow> error + string"

definition TryString :: "InterpolatedString \<Rightarrow> message \<Rightarrow> error + string" where
  "TryString t m = t m"

subsection \<open>The chat API of the backend\<close>

text \<open>
  \<open>api.Message\<close>, \<open>api.ChatRequest\<close> and \<open>api.ChatResponse\<close> with the fields this
  code touches. \<open>Stream\<close> is a pointer to a bool: \<open>None\<close> is nil.
\<close>

record api_Message =
  Role :: string
  Content :: string

record ChatRequest =
  Model :: string
  Messages :: "api_Message list"
  Stream :: "bool option"

record ChatResponse =
  Message :: api_Message
  Done :: bool

text \<open>
  A \<open>context.Context\<close>: the background context, or one derived from a parent by a
  cancel function or a deadline. \<open>Deadline\<close> is the earliest deadline on the chain;
  the background context has none.
\<close>

datatype Context = Background | WithCancel Context | WithDeadline Context nat


text \<open>
  The backend behind \<open>api.Client\<close>: for a context and a request, the response chunks it
  sends, in order, and the error that ends the exchange (\<open>None\<close> is nil).
\<close>

type_synonym client = "Context \<Rightarrow> ChatRequest \<Rightarrow> ChatResponse list \<times> error option"

text \<open>
  \<open>api.ChatResponseFunc\<close>: the callback, with the variables it captures as state \<open>'s\<close>.
\<close>

type_synonym 's ChatResponseFunc = "ChatResponse \<Rightarrow> 's \<Rightarrow> error option \<times> 's"

text \<open>
  The loop of \<open>Client.Chat\<close>: every chunk is handed to the callback in order; an error
  of the callback ends the loop at once and is returned; after the last chunk the
  backend's own error is returned. The third component counts the chunks handed over.
\<close>

fun stream :: "ChatResponse list \<Rightarrow> error option \<Rightarrow> 's ChatResponseFunc \<Rightarrow> 's \<Rightarrow>
    error option \<times> 's \<times> nat" where
  "stream [] e fn s = (e, s, 0)"
| "stream (r # rs) e fn s =
     (case fn r s of
        (Some err, s') \<Rightarrow> (Some err, s', 1)
      | (None, s') \<Rightarrow> (case stream rs e fn s' of (e', s'', n) \<Rightarrow> (e', s'', Suc n)))"

definition Chat :: "client \<Rightarrow> Context \<Rightarrow> ChatRequest \<Rightarrow> 's ChatResponseFunc \<Rightarrow> 's \<Rightarrow>
    error option \<times> 's \<times> nat" where
  "Chat c ctx req fn s = (case c ctx req of (chunks, e) \<Rightarrow> stream chunks e fn s)"

subsection \<open>The processor\<close>

text \<open>
  \<open>ollamaCompletionProcessor\<close>, with the two fields of the embedded
  \<open>baseOllamaProcessor\<close> that this file reads (\<open>model\<close> and \<open>client\<close>). An optional
  template is a pointer: \<open>None\<close> is nil.
\<close>

record ollamaCompletionProcessor =
  model :: string
  client :: client
  userPrompt :: "InterpolatedString option"
  systemPrompt :: "InterpolatedString option"

text \<open>\<open>computePrompt\<close> (lines 117 to 129).\<close>

definition computePrompt :: "ollamaCompletionProcessor \<Rightarrow> message \<Rightarrow> error + string" where
  "computePrompt proc msg =
     (case userPrompt proc of
        Some t \<Rightarrow> TryString t msg
      | None \<Rightarrow>
          (case AsBytes msg of
             Inl err \<Rightarrow> Inl err
           | Inr b \<Rightarrow>
               if \<not> utf8_Valid b
               then Inl (errors_New ''message payload contained invalid UTF8'')
               else Inr (string_of_bytes b)))"

text \<open>
  One call of the backend as \<open>generateCompletion\<close> makes it: the context and request
  passed to \<open>Chat\<close>, the number of chunks the backend sent and the number the callback
  received.
\<close>

record backend_call =
  call_ctx :: Context
  call_req :: ChatRequest
  chunks_sent :: nat
  chunks_read :: nat

text \<open>The request built on lines 132 to 145.\<close>

definition chat_request :: "ollamaCompletionProcessor \<Rightarrow> string \<Rightarrow> string \<Rightarrow> ChatRequest" where
  "chat_request proc sysPrompt usrPrompt =
     (let req = \<lparr>Model = model proc, Messages = [], Stream = None\<rparr>;
          req = (if sysPrompt \<noteq> ''''
                 then req\<lparr>Messages := Messages req @ [\<lparr>Role = ''system'', Content = sysPrompt\<rparr>]\<rparr>
                 else req);
          req = req\<lparr>Messages := Messages req @ [\<lparr>Role = ''user'', Content = usrPrompt\<rparr>]\<rparr>
      in req\<lparr>Stream := Some False\<rparr>)"

text \<open>The callback of line 147: it stores the chunk's content in \<open>g\<close> and returns nil.\<close>

definition keep_content :: "string ChatResponseFunc" where
  "keep_content resp g = (None, Content (Message resp))"

text \<open>\<open>generateCompletion\<close> (lines 131 to 152): the pair it returns, and the call made.\<close>

definition generateCompletion :: "ollamaCompletionProcessor \<Rightarrow> Context \<Rightarrow> string \<Rightarrow> string \<Rightarrow>
    (string \<times> error option) \<times> backend_call" where
  "generateCompletion proc ctx sysPrompt usrPrompt =
     (let req = chat_request proc sysPrompt usrPrompt
      in case Chat (client proc) ctx req keep_content '''' of
           (err, g, n) \<Rightarrow>
             ((g, err),
              \<lparr>call_ctx = ctx, call_req = req,
               chunks_sent = length (fst (client proc ctx req)), chunks_read = n\<rparr>))"

subsection \<open>Messages on the heap\<close>

text \<open>
  \<open>Process\<close> receives a pointer to a message, copies the message and writes to the
  copy. The heap of messages is a list and a pointer is an index into it; a new message
  is allocated at the end. A pointer outside the heap stands for nil, and reading
  through it panics.
\<close>

type_synonym addr = nat
type_synonym heap = "message list"

definition deref :: "heap \<Rightarrow> addr \<Rightarrow> message option" where
  "deref h p = (if p < length h then Some (h ! p) else None)"

text \<open>\<open>msg.Copy()\<close>: a new message with the same payload and metadata.\<close>

definition Copy :: "heap \<Rightarrow> addr \<Rightarrow> heap \<times> addr" where
  "Copy h p = (h @ [h ! p], length h)"

text \<open>\<open>m.SetBytes(b)\<close>: the payload of the message at \<open>p\<close> becomes the raw bytes \<open>b\<close>.\<close>

definition SetBytes :: "heap \<Rightarrow> addr \<Rightarrow> byte list \<Rightarrow> heap" where
  "SetBytes h p b = h[p := (h ! p)\<lparr>body := RawBytes b\<rparr>]"

text \<open>
  What one call of \<open>Process\<close> does: the value returned (the error, or the batch of
  message pointers), the heap afterwards and the backend calls made.
\<close>

record process_outcome =
  returned :: "error + addr list"
  heap_after :: heap
  backend_calls :: "backend_call list"

text \<open>The system prompt of lines 96 to 103: empty when no template is configured.\<close>

definition system_prompt :: "ollamaCompletionProcessor \<Rightarrow> message \<Rightarrow> error + string" where
  "system_prompt proc m =
     (case systemPrompt proc of
        None \<Rightarrow> Inr []
      | Some t \<Rightarrow> TryString t m)"

text \<open>\<open>Process\<close> (lines 95 to 115). \<open>None\<close> is the panic on a nil message.\<close>

definition Process :: "ollamaCompletionProcessor \<Rightarrow> Context \<Rightarrow> heap \<Rightarrow> addr \<Rightarrow>
    process_outcome option" where
  "Process proc ctx h msg =
     (case deref h msg of
        None \<Rightarrow> None
      | Some m \<Rightarrow>
          Some
            (case system_prompt proc m of
               Inl err \<Rightarrow> \<lparr>returned = Inl err, heap_after = h, backend_calls = []\<rparr>
             | Inr sp \<Rightarrow>
                 (case computePrompt proc m of
                    Inl err \<Rightarrow> \<lparr>returned = Inl err, heap_after = h, backend_calls = []\<rparr>
                  | Inr up \<Rightarrow>
                      (case generateCompletion proc ctx sp up of
                         ((g, Some err), call) \<Rightarrow>
                           \<lparr>returned = Inl err, heap_after = h, backend_calls = [call]\<rparr>
                       | ((g, None), call) \<Rightarrow>
                           (case Copy h msg of
                              (h', m') \<Rightarrow>
                                \<lparr>returned = Inr [m'],
                                 heap_after = SetBytes h' m' (bytes_of_string g),
                                 backend_calls = [call]\<rparr>)))))"

section \<open>The enterprise command line (InitEnterpriseCLI)\<close>

subsection \<open>The engine and what it is given\<close>

text \<open>
  Handles of the engine's objects: a \<open>service.Logger\<close>, a
  \<open>service.RunningStreamSummary\<close>, a record of the structured log. A
  \<open>service.ParsedConfig\<close> is a configuration together with the path of the namespace
  it looks at.
\<close>

type_synonym Logger = nat
type_synonym RunningStreamSummary = nat
type_synonym slog_Record = string

record ParsedConfig =
  conf_id :: nat
  conf_path :: "string list"

definition Namespace :: "ParsedConfig \<Rightarrow> string \<Rightarrow> ParsedConfig" where
  "Namespace conf p = conf\<lparr>conf_path := conf_path conf @ [p]\<rparr>"

text \<open>
  What the program does to the world outside \<open>InitEnterpriseCLI\<close>, in the order it does
  it: the calls on the topic logger \<open>rpLogger\<close> (package \<open>enterprise\<close>), the error line
  of the fallback logger, the line written to standard error.
\<close>

datatype event =
    NewTopicLogger string
  | SetFallbackLogger Logger
  | InitOutputFromParsed ParsedConfig
  | SetStreamSummary RunningStreamSummary
  | Handle slog_Record
  | Logger_Error Logger string
  | Stderr_Println string
  | TriggerEventStopped "error option"
  | Close Context

text \<open>
  \<open>service.RunCLIToCode\<close> under the options of lines 203 to 239, seen from the hooks:
  the engine fires the hooks it was given, when it chooses and as often as it chooses,
  reads what the config and stream hooks return, and in the end returns an exit code and
  an error (\<open>None\<close> is nil).
\<close>

datatype engine =
    Returns int "error option"
  | OnLoggerInit Logger engine
  | TeeLogger slog_Record engine
  | OnConfigParse ParsedConfig "error option \<Rightarrow> engine"
  | OnStreamStart RunningStreamSummary "error option \<Rightarrow> engine"

text \<open>The variable \<open>fbLogger\<close> (nil at first) and the events so far.\<close>

record cli_state =
  fbLogger :: "Logger option"
  events :: "event list"

definition emit :: "event \<Rightarrow> cli_state \<Rightarrow> cli_state" where
  "emit ev s = s\<lparr>events := events s @ [ev]\<rparr>"

text \<open>
  The run of the engine with the four hooks of lines 227 to 238. The result of
  \<open>rpLogger.InitOutputFromParsed\<close> is the parameter \<open>initOutput\<close>: the topic logger is
  not part of these sources.
\<close>

primrec RunCLIToCode :: "(ParsedConfig \<Rightarrow> error option) \<Rightarrow> engine \<Rightarrow> cli_state \<Rightarrow>
    (int \<times> error option) \<times> cli_state" where
  "RunCLIToCode initOutput (Returns exitCode err) = (\<lambda>s. ((exitCode, err), s))"
| "RunCLIToCode initOutput (OnLoggerInit l rest) =
     (\<lambda>s. RunCLIToCode initOutput rest (emit (SetFallbackLogger l) (s\<lparr>fbLogger := Some l\<rparr>)))"
| "RunCLIToCode initOutput (TeeLogger r rest) =
     (\<lambda>s. RunCLIToCode initOutput rest (emit (Handle r) s))"
| "RunCLIToCode initOutput (OnConfigParse fn rest) =
     (\<lambda>s. let ns = Namespace fn ''redpanda''
          in RunCLIToCode initOutput (rest (initOutput ns)) (emit (InitOutputFromParsed ns) s))"
| "RunCLIToCode initOutput (OnStreamStart sm rest) =
     (\<lambda>s. RunCLIToCode initOutput (rest None) (emit (SetStreamSummary sm) s))"

text \<open>How \<open>InitEnterpriseCLI\<close> ends: it returns to its caller, or calls \<open>os.Exit\<close>.\<close>

datatype ending = ReturnsToCaller | OsExit int

record cli_outcome =
  trace :: "event list"
  ending :: ending

text \<open>
  \<open>InitEnterpriseCLI\<close> (lines 199 to 255). \<open>runId\<close> is the value of
  \<open>xid.New().String()\<close>.
\<close>

definition InitEnterpriseCLI :: "string \<Rightarrow> (ParsedConfig \<Rightarrow> error option) \<Rightarrow> engine \<Rightarrow>
    cli_outcome" where
  "InitEnterpriseCLI runId initOutput eng =
     (case RunCLIToCode initOutput eng \<lparr>fbLogger = None, events = [NewTopicLogger runId]\<rparr> of
        ((exitCode, err), s) \<Rightarrow>
          (let s = (case err of
                      None \<Rightarrow> s
                    | Some e \<Rightarrow>
                        (case fbLogger s of
                           Some l \<Rightarrow> emit (Logger_Error l (Error_msg e)) s
                         | None \<Rightarrow> emit (Stderr_Println (Error_msg e)) s));
               s = emit (TriggerEventStopped err) s;
               s = emit (Close Background) s
           in \<lparr>trace = events s,
               ending = (if exitCode \<noteq> 0 then OsExit exitCode else ReturnsToCaller)\<rparr>))"

text \<open>
  The exit status of the process: the argument of \<open>os.Exit\<close>, and 0 when
  \<open>InitEnterpriseCLI\<close> returns and \<open>main\<close>, which only calls it, returns after it.
\<close>

fun exit_status :: "ending \<Rightarrow> int" where
  "exit_status ReturnsToCaller = 0"
| "exit_status (OsExit code) = code"

subsection \<open>Reading a trace\<close>

text \<open>
  The arguments of the \<open>TriggerEventStopped\<close> calls in a trace, the contexts of its
  \<open>Close\<close> calls, and the error lines it writes (through a logger or to standard
  error), each in order. \<open>captured\<close> is the logger of the last \<open>SetFallbackLogger\<close>
  call, which the logger-init hook makes together with the assignment to \<open>fbLogger\<close>.
  \<open>hook_event\<close> holds of the calls that the four hooks make.
\<close>

fun stopped_events :: "event list \<Rightarrow> error option list" where
  "stopped_events [] = []"
| "stopped_events (TriggerEventStopped err # evs) = err # stopped_events evs"
| "stopped_events (ev # evs) = stopped_events evs"

fun close_contexts :: "event list \<Rightarrow> Context list" where
  "close_contexts [] = []"
| "close_contexts (Close ctx # evs) = ctx # close_contexts evs"
| "close_contexts (ev # evs) = close_contexts evs"

fun logged_errors :: "event list \<Rightarrow> event list" where
  "logged_errors [] = []"
| "logged_errors (Logger_Error l text # evs) = Logger_Error l text # logged_errors evs"
| "logged_errors (Stderr_Println text # evs) = Stderr_Println text # logged_errors evs"
| "logged_errors (ev # evs) = logged_errors evs"

fun captured :: "event list \<Rightarrow> Logger option" where
  "captured [] = None"
| "captured (SetFallbackLogger l # evs) =
     (case captured evs of None \<Rightarrow> Some l | Some l' \<Rightarrow> Some l')"
| "captured (ev # evs) = captured evs"

fun hook_event :: "event \<Rightarrow> bool" where
  "hook_event (SetFallbackLogger l) = True"
| "hook_event (InitOutputFromParsed c) = True"
| "hook_event (SetStreamSummary sm) = True"
| "hook_event (Handle r) = True"
| "hook_event ev = False"

section \<open>Concrete inputs\<close>

text \<open>
  Two messages (the payload \<open>hello\<close>, and the two bytes \<open>0xFF 0xFE\<close>, which are not
  UTF-8), a backend that answers \<open>hi there\<close> in one response, and a processor for the
  model \<open>llama3\<close> with the given templates.
\<close>

definition hello_msg :: message where
  "hello_msg = \<lparr>body = RawBytes [0x68, 0x65, 0x6C, 0x6C, 0x6F],
                 metadata = [(''kafka_topic'', ''greetings'')]\<rparr>"

definition invalid_msg :: message where
  "invalid_msg = \<lparr>body = RawBytes [0xFF, 0xFE], metadata = [(''kafka_topic'', ''greetings'')]\<rparr>"

definition reply :: "string \<Rightarrow> bool \<Rightarrow> ChatResponse" where
  "reply content fin = \<lparr>Message = \<lparr>Role = ''assistant'', Content = content\<rparr>, Done = fin\<rparr>"

definition hi_there :: client where
  "hi_there ctx req = ([reply ''hi there'' True], None)"

definition llama3 :: "InterpolatedString option \<Rightarrow> InterpolatedString option \<Rightarrow>
    ollamaCompletionProcessor" where
  "llama3 up sp = \<lparr>model = ''llama3'', client = hi_there, userPrompt = up, systemPrompt = sp\<rparr>"

definition failing_template :: InterpolatedString where
  "failing_template m = Inl (GoError ''failed to resolve interpolation'')"

text \<open>
  A backend that sends three chunks, and an engine that captures a logger, parses the
  configuration, starts the stream and then fails with exit code 2 (or with code 1 and the
  error of the config hook, when that hook fails).
\<close>

definition three_chunks :: client where
  "three_chunks ctx req = ([reply ''hi'' False, reply '' there'' False, reply ''hi there'' True], None)"

definition failing_engine :: engine where
  "failing_engine =
     OnLoggerInit 7
       (OnConfigParse \<lparr>conf_id = 1, conf_path = []\<rparr>
          (\<lambda>r. case r of
                  Some e \<Rightarrow> Returns 1 (Some e)
                | None \<Rightarrow> OnStreamStart 3 (\<lambda>r. Returns 2 (Some (GoError ''lint failed'')))))"

section \<open>Properties of the processor\<close>

subsection \<open>Bytes and strings\<close>

lemma byte_char_byte: "word_of_nat (unat (w::byte) mod 256) = w"
proof -
  have "unat w < 256"
    using unsigned_less [of w, where ?'a = nat] by simp
  then show ?thesis by simp
qed

lemma bytes_of_string_of_bytes: "bytes_of_string (string_of_bytes b) = b"
  by (induction b) (simp_all add: bytes_of_string_def string_of_bytes_def byte_char_byte)

lemma char_byte_char: "char_of (unat (word_of_nat (of_char c) :: byte)) = c"
  by (simp add: unat_of_nat char_of_eq_iff take_bit_eq_mod)

lemma string_of_bytes_of_string: "string_of_bytes (bytes_of_string s) = s"
  by (induction s) (simp_all add: bytes_of_string_def string_of_bytes_def char_byte_char)

lemma hello_bytes: "string_of_bytes [0x68, 0x65, 0x6C, 0x6C, 0x6F] = ''hello''"
  by (simp add: string_of_bytes_def char_of_eq_iff)

lemma deref_SomeD: "deref h p = Some m \<Longrightarrow> p < length h \<and> h ! p = m"
  by (simp add: deref_def split: if_splits)

subsection \<open>The user prompt\<close>

text \<open>
  C1. The user prompt is resolved in order, and the first match wins. With a user-prompt
  template configured, \<open>computePrompt\<close> returns what the template evaluates to on the
  message (its text, empty or not, or its error), whatever the payload is. With no
  template, and a payload whose bytes are valid UTF-8, it returns those bytes as text;
  converting the text back gives the same bytes.
\<close>

theorem computePrompt_first_match:
  "(userPrompt proc = Some t \<longrightarrow> computePrompt proc msg = TryString t msg) \<and>
   (userPrompt proc = None \<longrightarrow> AsBytes msg = Inr b \<longrightarrow> utf8_Valid b \<longrightarrow>
      computePrompt proc msg = Inr (string_of_bytes b) \<and>
      bytes_of_string (string_of_bytes b) = b)"
  by (simp add: computePrompt_def bytes_of_string_of_bytes del: AsBytes.simps)

theorem computePrompt_first_match_witness:
  "computePrompt (llama3 (Some (\<lambda>m. Inr [])) None) invalid_msg = Inr [] \<and>
   computePrompt (llama3 None None) hello_msg = Inr ''hello''"
proof -
  have tpl: "userPrompt (llama3 (Some (\<lambda>m. Inr [])) None) = Some (\<lambda>m. Inr [])"
    by (simp add: llama3_def)
  have none: "userPrompt (llama3 None None) = None"
    by (simp add: llama3_def)
  have bytes: "AsBytes hello_msg = Inr [0x68, 0x65, 0x6C, 0x6C, 0x6F]"
    by (simp add: hello_msg_def)
  have valid: "utf8_Valid [0x68, 0x65, 0x6C, 0x6C, 0x6F]"
    by simp
  from computePrompt_first_match [of "llama3 (Some (\<lambda>m. Inr [])) None" "\<lambda>m. Inr []" invalid_msg]
    computePrompt_first_match [of "llama3 None None" _ hello_msg "[0x68, 0x65, 0x6C, 0x6C, 0x6F]"]
    tpl none bytes valid hello_bytes
  show ?thesis by (simp add: TryString_def del: AsBytes.simps)
qed

subsection \<open>A payload that is not UTF-8\<close>

text \<open>
  C2, as amended. For a message with no user-prompt template configured and a payload
  that is not valid UTF-8, \<open>Process\<close> returns an error and no output message (the heap
  is as before, nothing was allocated), and makes no backend call. When the system prompt
  resolves (no system template, or one that evaluates without error on the message), the
  message of that error is \<open>message payload contained invalid UTF8\<close>; when the system
  template fails on the message, the error returned is the template's.
\<close>

theorem Process_invalid_utf8:
  assumes "userPrompt proc = None" and "deref h msg = Some m"
    and "AsBytes m = Inr b" and "\<not> utf8_Valid b"
  shows "\<exists>out e. Process proc ctx h msg = Some out \<and> returned out = Inl e \<and>
           heap_after out = h \<and> backend_calls out = [] \<and>
           (case system_prompt proc m of
              Inr sp \<Rightarrow> Error_msg e = ''message payload contained invalid UTF8''
            | Inl err \<Rightarrow> e = err)"
proof -
  have up: "computePrompt proc m = Inl (errors_New ''message payload contained invalid UTF8'')"
    using assms by (simp add: computePrompt_def del: AsBytes.simps)
  show ?thesis
  proof (cases "system_prompt proc m")
    case (Inl err)
    with assms(2) show ?thesis by (simp add: Process_def)
  next
    case (Inr sp)
    with assms(2) up show ?thesis by (simp add: Process_def errors_New_def)
  qed
qed

theorem Process_invalid_utf8_witness:
  "Process (llama3 None None) Background [invalid_msg] 0 =
     Some \<lparr>returned = Inl (GoError ''message payload contained invalid UTF8''),
           heap_after = [invalid_msg], backend_calls = []\<rparr>"
proof -
  have a: "userPrompt (llama3 None None) = None"
    by (simp add: llama3_def)
  have b: "deref [invalid_msg] 0 = Some invalid_msg"
    by (simp add: deref_def)
  have c: "AsBytes invalid_msg = Inr [0xFF, 0xFE]"
    by (simp add: invalid_msg_def)
  have d: "\<not> utf8_Valid [0xFF, 0xFE]"
    by (simp add: utf8_first_def)
  have s: "system_prompt (llama3 None None) invalid_msg = Inr []"
    by (simp add: system_prompt_def llama3_def)
  from Process_invalid_utf8 [OF a b c d, of Background] s
  obtain out e where o: "Process (llama3 None None) Background [invalid_msg] 0 = Some out"
    "returned out = Inl e" "heap_after out = [invalid_msg]" "backend_calls out = []"
    "Error_msg e = ''message payload contained invalid UTF8''"
    by auto
  from o(5) have "e = GoError ''message payload contained invalid UTF8''"
    by (cases e) simp
  with o show ?thesis by (cases out) simp
qed

text \<open>
  The claim as first stated fails where the system template fails: the system prompt is
  resolved before the user prompt, so the error returned for the payload \<open>0xFF 0xFE\<close>
  is the template's, with another message.
\<close>

theorem Process_invalid_utf8_counterexample:
  "userPrompt (llama3 None (Some failing_template)) = None \<and>
   AsBytes invalid_msg = Inr [0xFF, 0xFE] \<and> \<not> utf8_Valid [0xFF, 0xFE] \<and>
   Process (llama3 None (Some failing_template)) Background [invalid_msg] 0 =
     Some \<lparr>returned = Inl (GoError ''failed to resolve interpolation''),
           heap_after = [invalid_msg], backend_calls = []\<rparr> \<and>
   Error_msg (GoError ''failed to resolve interpolation'') \<noteq>
     ''message payload contained invalid UTF8''"
  by (simp add: llama3_def invalid_msg_def utf8_first_def Process_def deref_def
      system_prompt_def TryString_def failing_template_def)

subsection \<open>The request\<close>

lemma call_req_generateCompletion:
  "call_req (snd (generateCompletion proc ctx sp up)) = chat_request proc sp up"
  by (simp add: generateCompletion_def Let_def split: prod.splits)

lemma Messages_chat_request:
  "Messages (chat_request proc sp up) =
     (if sp = [] then [] else [\<lparr>Role = ''system'', Content = sp\<rparr>]) @
     [\<lparr>Role = ''user'', Content = up\<rparr>]"
  by (simp add: chat_request_def)

lemma Stream_chat_request: "Stream (chat_request proc sp up) = Some False"
  by (simp add: chat_request_def Let_def)

text \<open>
  C3. For every system prompt \<open>sp\<close> and user prompt \<open>up\<close>, the request that
  \<open>generateCompletion\<close> passes to the backend holds, when \<open>sp\<close> is empty, the user
  entry with content \<open>up\<close> and nothing else, and when \<open>sp\<close> is not empty, one system
  entry with content \<open>sp\<close> followed by that user entry; its streaming flag is set, to
  false.
\<close>

theorem chat_request_entries:
  "(sp = [] \<longrightarrow>
      Messages (call_req (snd (generateCompletion proc ctx sp up))) =
        [\<lparr>Role = ''user'', Content = up\<rparr>]) \<and>
   (sp \<noteq> [] \<longrightarrow>
      Messages (call_req (snd (generateCompletion proc ctx sp up))) =
        [\<lparr>Role = ''system'', Content = sp\<rparr>, \<lparr>Role = ''user'', Content = up\<rparr>]) \<and>
   Stream (call_req (snd (generateCompletion proc ctx sp up))) = Some False"
  by (simp add: call_req_generateCompletion Messages_chat_request Stream_chat_request)

theorem chat_request_entries_witness:
  "Messages (call_req (snd (generateCompletion (llama3 None None) Background
      ''be brief'' ''hello''))) =
     [\<lparr>Role = ''system'', Content = ''be brief''\<rparr>, \<lparr>Role = ''user'', Content = ''hello''\<rparr>] \<and>
   Messages (call_req (snd (generateCompletion (llama3 None None) Background [] ''hello''))) =
     [\<lparr>Role = ''user'', Content = ''hello''\<rparr>] \<and>
   Stream (call_req (snd (generateCompletion (llama3 None None) Background [] ''hello''))) =
     Some False"
  using chat_request_entries [of "''be brief''" "llama3 None None" Background "''hello''"]
    chat_request_entries [of "[]" "llama3 None None" Background "''hello''"]
  by simp

subsection \<open>The response\<close>

lemma stream_keep_content:
  "stream chunks e keep_content g =
     (e, (if chunks = [] then g else Content (Message (last chunks))), length chunks)"
  by (induction chunks arbitrary: g) (simp_all add: keep_content_def)

text \<open>
  C5. When the backend answers the request with one chunk or more, \<open>generateCompletion\<close>
  returns the content of the last chunk alone (the contents of the chunks before it are
  dropped), together with the backend's own error, and the callback has received every
  chunk that the backend sent: the whole response is read before the function returns.
\<close>

theorem generateCompletion_last_chunk:
  assumes "client proc ctx (chat_request proc sp up) = (chunks, e)"
    and "chunks \<noteq> []"
  shows "generateCompletion proc ctx sp up =
           ((Content (Message (last chunks)), e),
            \<lparr>call_ctx = ctx, call_req = chat_request proc sp up,
             chunks_sent = length chunks, chunks_read = length chunks\<rparr>)"
  using assms by (simp add: generateCompletion_def Chat_def stream_keep_content)

theorem generateCompletion_last_chunk_witness:
  "fst (generateCompletion ((llama3 None None)\<lparr>client := three_chunks\<rparr>) Background [] ''hello'') =
     (''hi there'', None) \<and>
   chunks_sent (snd (generateCompletion ((llama3 None None)\<lparr>client := three_chunks\<rparr>)
     Background [] ''hello'')) = 3 \<and>
   chunks_read (snd (generateCompletion ((llama3 None None)\<lparr>client := three_chunks\<rparr>)
     Background [] ''hello'')) = 3"
proof -
  let ?p = "(llama3 None None)\<lparr>client := three_chunks\<rparr>"
  have a: "client ?p Background (chat_request ?p [] ''hello'') =
      ([reply ''hi'' False, reply '' there'' False, reply ''hi there'' True], None)"
    by (simp add: three_chunks_def)
  have b: "[reply ''hi'' False, reply '' there'' False, reply ''hi there'' True] \<noteq> []"
    by simp
  show ?thesis
    using generateCompletion_last_chunk [OF a b] by (simp add: reply_def)
qed

subsection \<open>The output message\<close>

lemma Process_Inr:
  assumes "deref h msg = Some m"
    and "system_prompt proc m = Inr sp"
    and "computePrompt proc m = Inr up"
    and "generateCompletion proc ctx sp up = ((g, None), call)"
  shows "Process proc ctx h msg =
      Some \<lparr>returned = Inr [length h],
            heap_after = h @ [m\<lparr>body := RawBytes (bytes_of_string g)\<rparr>],
            backend_calls = [call]\<rparr>"
proof -
  from assms(1) have "h ! msg = m"
    by (simp add: deref_SomeD)
  with assms show ?thesis
    by (simp add: Process_def Copy_def SetBytes_def)
qed

lemma hi_there_bytes:
  "bytes_of_string ''hi there'' = [0x68, 0x69, 0x20, 0x74, 0x68, 0x65, 0x72, 0x65]"
  by (simp add: bytes_of_string_def)

lemma llama3_hello:
  "deref [hello_msg] 0 = Some hello_msg"
  "system_prompt (llama3 None None) hello_msg = Inr []"
  "computePrompt (llama3 None None) hello_msg = Inr ''hello''"
  "fst (generateCompletion (llama3 None None) Background [] ''hello'') = (''hi there'', None)"
  by (simp_all add: deref_def system_prompt_def computePrompt_def llama3_def hello_msg_def
      hello_bytes generateCompletion_def Chat_def hi_there_def keep_content_def reply_def)

text \<open>
  C4. For every message on which the system prompt and the user prompt resolve and the
  backend call returns the text \<open>g\<close> with no error, \<open>Process\<close> returns a batch of
  exactly one message; that message is the original with its payload replaced: its
  metadata is the original's, and its payload is the raw bytes of \<open>g\<close>, which read
  back as \<open>g\<close>. It is a copy: its address was not in use before the call and is not
  the address of the input message, and the input message is still on the heap as it
  was.
\<close>

theorem Process_success:
  assumes "deref h msg = Some m"
    and "system_prompt proc m = Inr sp"
    and "computePrompt proc m = Inr up"
    and "fst (generateCompletion proc ctx sp up) = (g, None)"
  shows "\<exists>out m'. Process proc ctx h msg = Some out \<and> returned out = Inr [m'] \<and>
           deref (heap_after out) m' = Some (m\<lparr>body := RawBytes (bytes_of_string g)\<rparr>) \<and>
           metadata (m\<lparr>body := RawBytes (bytes_of_string g)\<rparr>) = metadata m \<and>
           AsBytes (m\<lparr>body := RawBytes (bytes_of_string g)\<rparr>) = Inr (bytes_of_string g) \<and>
           string_of_bytes (bytes_of_string g) = g \<and>
           deref h m' = None \<and> m' \<noteq> msg \<and>
           deref (heap_after out) msg = Some m"
proof -
  from assms(1) have lt: "msg < length h" and m: "h ! msg = m"
    by (simp_all add: deref_SomeD)
  obtain call where gc: "generateCompletion proc ctx sp up = ((g, None), call)"
    using assms(4) by (cases "generateCompletion proc ctx sp up") simp
  from Process_Inr [OF assms(1-3) gc] lt m show ?thesis
    by (simp add: deref_def string_of_bytes_of_string nth_append)
qed

theorem Process_success_witness:
  "\<exists>out m'. Process (llama3 None None) Background [hello_msg] 0 = Some out \<and>
     returned out = Inr [m'] \<and>
     deref (heap_after out) m' =
       Some \<lparr>body = RawBytes [0x68, 0x69, 0x20, 0x74, 0x68, 0x65, 0x72, 0x65],
             metadata = [(''kafka_topic'', ''greetings'')]\<rparr> \<and>
     deref [hello_msg] m' = None \<and> m' \<noteq> 0 \<and>
     deref (heap_after out) 0 = Some hello_msg"
proof -
  have e: "hello_msg\<lparr>body := RawBytes (bytes_of_string ''hi there'')\<rparr> =
      \<lparr>body = RawBytes [0x68, 0x69, 0x20, 0x74, 0x68, 0x65, 0x72, 0x65],
       metadata = [(''kafka_topic'', ''greetings'')]\<rparr>"
    by (simp add: hello_msg_def hi_there_bytes)
  from Process_success [OF llama3_hello] show ?thesis
    unfolding e by blast
qed

subsection \<open>The input message\<close>

text \<open>
  C10. For every context and every message, \<open>Process\<close> leaves the input message as it
  was, and every other message that was on the heap: when it returns an error the heap
  is unchanged; when it succeeds the batch is one new message, at an address that was
  not in use, which is the input message with another payload, and that is the only
  change.
\<close>

theorem Process_frame:
  assumes "deref h msg = Some m"
  shows "\<exists>out. Process proc ctx h msg = Some out \<and>
           deref (heap_after out) msg = Some m \<and>
           (\<forall>p < length h. deref (heap_after out) p = deref h p) \<and>
           (case returned out of
              Inl e \<Rightarrow> heap_after out = h
            | Inr batch \<Rightarrow> batch = [length h] \<and> deref h (length h) = None \<and>
                (\<exists>g. heap_after out = h @ [m\<lparr>body := RawBytes g\<rparr>]))"
proof -
  from assms have lt: "msg < length h"
    by (simp add: deref_SomeD)
  have keep: "deref (h @ [x]) p = deref h p" if "p < length h" for x p
    using that by (simp add: deref_def nth_append)
  show ?thesis
  proof (cases "system_prompt proc m")
    case (Inl err)
    with assms show ?thesis by (simp add: Process_def)
  next
    case sp: (Inr sp)
    show ?thesis
    proof (cases "computePrompt proc m")
      case (Inl err)
      with assms sp show ?thesis by (simp add: Process_def)
    next
      case up: (Inr up)
      obtain g err call where gc: "generateCompletion proc ctx sp up = ((g, err), call)"
        by (cases "generateCompletion proc ctx sp up") auto
      show ?thesis
      proof (cases err)
        case None
        with Process_Inr [OF assms sp up] gc assms lt show ?thesis
          by (auto simp: keep) (simp add: deref_def)
      next
        case (Some e)
        with assms sp up gc show ?thesis by (simp add: Process_def)
      qed
    qed
  qed
qed

theorem Process_frame_witness:
  "(\<exists>out. Process (llama3 None None) Background [hello_msg] 0 = Some out \<and>
      deref (heap_after out) 0 = Some hello_msg \<and> returned out = Inr [1]) \<and>
   (\<exists>out. Process (llama3 None None) Background [invalid_msg] 0 = Some out \<and>
      heap_after out = [invalid_msg])"
proof -
  have a: "deref [invalid_msg] 0 = Some invalid_msg"
    by (simp add: deref_def)
  from Process_frame [OF llama3_hello(1), of "llama3 None None" Background]
  obtain out where o: "Process (llama3 None None) Background [hello_msg] 0 = Some out"
    "deref (heap_after out) 0 = Some hello_msg"
    "case returned out of Inl e \<Rightarrow> heap_after out = [hello_msg]
     | Inr batch \<Rightarrow> batch = [length [hello_msg]] \<and> deref [hello_msg] (length [hello_msg]) = None \<and>
         (\<exists>g. heap_after out = [hello_msg] @ [hello_msg\<lparr>body := RawBytes g\<rparr>])"
    by blast
  from Process_Inr [OF llama3_hello(1-3), of Background "''hi there''"] llama3_hello(4) o(1)
  have "returned out = Inr [1]"
    by (cases "generateCompletion (llama3 None None) Background [] ''hello''") auto
  with o have first: "\<exists>out. Process (llama3 None None) Background [hello_msg] 0 = Some out \<and>
      deref (heap_after out) 0 = Some hello_msg \<and> returned out = Inr [1]"
    by blast
  from Process_frame [OF a, of "llama3 None None" Background]
  obtain out' where o': "Process (llama3 None None) Background [invalid_msg] 0 = Some out'"
    "case returned out' of Inl e \<Rightarrow> heap_after out' = [invalid_msg]
     | Inr batch \<Rightarrow> batch = [length [invalid_msg]] \<and>
         deref [invalid_msg] (length [invalid_msg]) = None \<and>
         (\<exists>g. heap_after out' = [invalid_msg] @ [invalid_msg\<lparr>body := RawBytes g\<rparr>])"
    by blast
  have "Process (llama3 None None) Background [invalid_msg] 0 =
      Some \<lparr>returned = Inl (GoError ''message payload contained invalid UTF8''),
            heap_after = [invalid_msg], backend_calls = []\<rparr>"
    by (simp add: Process_def deref_def system_prompt_def computePrompt_def llama3_def
        invalid_msg_def utf8_first_def errors_New_def)
  with o' have "heap_after out' = [invalid_msg]"
    by auto
  with o'(1) first show ?thesis
    by blast
qed

section \<open>Properties of the enterprise command line\<close>

subsection \<open>Traces\<close>

lemma stopped_events_append [simp]:
  "stopped_events (xs @ ys) = stopped_events xs @ stopped_events ys"
  by (induction xs rule: stopped_events.induct) simp_all

lemma close_contexts_append [simp]:
  "close_contexts (xs @ ys) = close_contexts xs @ close_contexts ys"
  by (induction xs rule: close_contexts.induct) simp_all

lemma logged_errors_append [simp]:
  "logged_errors (xs @ ys) = logged_errors xs @ logged_errors ys"
  by (induction xs rule: logged_errors.induct) simp_all

lemma captured_append [simp]:
  "captured (xs @ ys) = (case captured ys of None \<Rightarrow> captured xs | Some l \<Rightarrow> Some l)"
  by (induction xs rule: captured.induct) (simp_all split: option.splits)

lemma captured_None_iff: "captured evs = None \<longleftrightarrow> (\<forall>l. SetFallbackLogger l \<notin> set evs)"
  by (induction evs rule: captured.induct) (auto split: option.splits)

lemma hook_events_none:
  "\<forall>ev \<in> set evs. hook_event ev \<Longrightarrow>
   stopped_events evs = [] \<and> close_contexts evs = [] \<and> logged_errors evs = []"
proof (induction evs)
  case Nil
  then show ?case by simp
next
  case (Cons ev evs)
  then show ?case by (cases ev) simp_all
qed

subsection \<open>The run of the engine\<close>

text \<open>
  Whatever the engine does, the events of its run are calls made by the four hooks, added
  after the events that were there; and \<open>fbLogger\<close> is the logger captured last.
\<close>

lemma events_emit [simp]: "events (emit ev s) = events s @ [ev]"
  by (simp add: emit_def)

lemma fbLogger_emit [simp]: "fbLogger (emit ev s) = fbLogger s"
  by (simp add: emit_def)

lemma RunCLIToCode_events:
  "RunCLIToCode initOutput eng s = (r, s') \<Longrightarrow>
   \<exists>evs. events s' = events s @ evs \<and> (\<forall>ev \<in> set evs. hook_event ev)"
proof (induction eng arbitrary: s)
  case (Returns c e)
  then show ?case by auto
next
  case (OnLoggerInit l rest)
  from OnLoggerInit.IH [of "emit (SetFallbackLogger l) (s\<lparr>fbLogger := Some l\<rparr>)"]
    OnLoggerInit.prems
  obtain evs where "events s' = events s @ SetFallbackLogger l # evs"
    "\<forall>ev \<in> set evs. hook_event ev"
    by auto
  then show ?case
    by (intro exI [of _ "SetFallbackLogger l # evs"]) simp
next
  case (TeeLogger x rest)
  from TeeLogger.IH [of "emit (Handle x) s"] TeeLogger.prems
  obtain evs where "events s' = events s @ Handle x # evs" "\<forall>ev \<in> set evs. hook_event ev"
    by auto
  then show ?case
    by (intro exI [of _ "Handle x # evs"]) simp
next
  case (OnConfigParse fn rest)
  let ?ns = "Namespace fn ''redpanda''"
  from OnConfigParse.IH [of "rest (initOutput ?ns)" "emit (InitOutputFromParsed ?ns) s"]
    OnConfigParse.prems
  obtain evs where "events s' = events s @ InitOutputFromParsed ?ns # evs"
    "\<forall>ev \<in> set evs. hook_event ev"
    by (auto simp: Let_def)
  then show ?case
    by (intro exI [of _ "InitOutputFromParsed ?ns # evs"]) simp
next
  case (OnStreamStart sm rest)
  from OnStreamStart.IH [of "rest None" "emit (SetStreamSummary sm) s"] OnStreamStart.prems
  obtain evs where "events s' = events s @ SetStreamSummary sm # evs"
    "\<forall>ev \<in> set evs. hook_event ev"
    by auto
  then show ?case
    by (intro exI [of _ "SetStreamSummary sm # evs"]) simp
qed

lemma RunCLIToCode_fbLogger:
  "RunCLIToCode initOutput eng s = (r, s') \<Longrightarrow> fbLogger s = captured (events s) \<Longrightarrow>
   fbLogger s' = captured (events s')"
proof (induction eng arbitrary: s)
  case (Returns c e)
  then show ?case by auto
next
  case (OnLoggerInit l rest)
  from OnLoggerInit.IH [of "emit (SetFallbackLogger l) (s\<lparr>fbLogger := Some l\<rparr>)"]
    OnLoggerInit.prems
  show ?case by simp
next
  case (TeeLogger x rest)
  from TeeLogger.IH [of "emit (Handle x) s"] TeeLogger.prems
  show ?case by simp
next
  case (OnConfigParse fn rest)
  from OnConfigParse.IH [of "rest (initOutput (Namespace fn ''redpanda''))"
      "emit (InitOutputFromParsed (Namespace fn ''redpanda'')) s"]
    OnConfigParse.prems
  show ?case by (simp add: Let_def)
next
  case (OnStreamStart sm rest)
  from OnStreamStart.IH [of "rest None" "emit (SetStreamSummary sm) s"] OnStreamStart.prems
  show ?case by simp
qed

subsection \<open>After the engine has returned\<close>

lemma trace_InitEnterpriseCLI:
  assumes "RunCLIToCode initOutput eng \<lparr>fbLogger = None, events = [NewTopicLogger runId]\<rparr> =
      ((exitCode, err), s)"
  shows "trace (InitEnterpriseCLI runId initOutput eng) =
      events s @
      (case err of
         None \<Rightarrow> []
       | Some e \<Rightarrow>
           [case captured (events s) of
              Some l \<Rightarrow> Logger_Error l (Error_msg e)
            | None \<Rightarrow> Stderr_Println (Error_msg e)]) @
      [TriggerEventStopped err, Close Background]"
proof -
  have "fbLogger s = captured (events s)"
    using RunCLIToCode_fbLogger [OF assms] by simp
  with assms show ?thesis
    by (simp add: InitEnterpriseCLI_def Let_def split: option.splits)
qed

lemma engine_events:
  assumes "RunCLIToCode initOutput eng \<lparr>fbLogger = None, events = [NewTopicLogger runId]\<rparr> =
      (r, s)"
  shows "stopped_events (events s) = [] \<and> close_contexts (events s) = [] \<and>
    logged_errors (events s) = []"
proof -
  from RunCLIToCode_events [OF assms] obtain evs where
    "events s = [NewTopicLogger runId] @ evs" "\<forall>ev \<in> set evs. hook_event ev"
    by auto
  with hook_events_none [of evs] show ?thesis by simp
qed

lemma run_failing_engine:
  "RunCLIToCode (\<lambda>c. None) failing_engine \<lparr>fbLogger = None, events = [NewTopicLogger ''run1'']\<rparr> =
     ((2, Some (GoError ''lint failed'')),
      \<lparr>fbLogger = Some 7,
       events = [NewTopicLogger ''run1'', SetFallbackLogger 7,
         InitOutputFromParsed \<lparr>conf_id = 1, conf_path = [''redpanda'']\<rparr>, SetStreamSummary 3]\<rparr>)"
  by (simp add: failing_engine_def emit_def Namespace_def)

lemma run_Returns:
  "RunCLIToCode initOutput (Returns c e) \<lparr>fbLogger = None, events = [NewTopicLogger runId]\<rparr> =
     ((c, e), \<lparr>fbLogger = None, events = [NewTopicLogger runId]\<rparr>)"
  by simp

text \<open>
  C6. In every run, whatever the engine did and whether it returned a nil error or an
  error, \<open>TriggerEventStopped\<close> is called exactly once in the whole trace, with the
  error that the engine returned; the call comes after every event of the engine's run
  and after the error line, if there is one, and is followed at once by the call of
  \<open>Close\<close>, which is the first one.
\<close>

theorem TriggerEventStopped_once:
  assumes "RunCLIToCode initOutput eng \<lparr>fbLogger = None, events = [NewTopicLogger runId]\<rparr> =
      ((exitCode, err), s)"
  shows "stopped_events (trace (InitEnterpriseCLI runId initOutput eng)) = [err] \<and>
    (\<exists>logged. trace (InitEnterpriseCLI runId initOutput eng) =
        events s @ logged @ [TriggerEventStopped err, Close Background] \<and>
      close_contexts (events s @ logged) = [])"
proof -
  note t = trace_InitEnterpriseCLI [OF assms] and e = engine_events [OF assms]
  let ?logged = "case err of None \<Rightarrow> [] | Some e \<Rightarrow>
      [case captured (events s) of Some l \<Rightarrow> Logger_Error l (Error_msg e)
       | None \<Rightarrow> Stderr_Println (Error_msg e)]"
  have l: "stopped_events ?logged = [] \<and> close_contexts ?logged = []"
    by (simp split: option.splits)
  from t e l have "stopped_events (trace (InitEnterpriseCLI runId initOutput eng)) = [err]"
    by simp
  moreover from t e l have "trace (InitEnterpriseCLI runId initOutput eng) =
      events s @ ?logged @ [TriggerEventStopped err, Close Background] \<and>
      close_contexts (events s @ ?logged) = []"
    by simp
  ultimately show ?thesis by blast
qed

theorem TriggerEventStopped_once_witness:
  "stopped_events (trace (InitEnterpriseCLI ''run1'' (\<lambda>c. None) failing_engine)) =
     [Some (GoError ''lint failed'')] \<and>
   stopped_events (trace (InitEnterpriseCLI ''run1'' (\<lambda>c. None) (Returns 0 None))) = [None]"
  using TriggerEventStopped_once [OF run_failing_engine]
    TriggerEventStopped_once [OF run_Returns [of "\<lambda>c. None" 0 None "''run1''"]]
  by simp

text \<open>
  C7, as amended. After the engine run, when the error it returned is not nil, the
  message of that error is written exactly once, before \<open>TriggerEventStopped\<close>:
  through the fallback logger captured last if the logger-init hook fired at all, and to
  standard error otherwise. When the error is nil, nothing is written.
\<close>

theorem terminal_error_logged:
  assumes "RunCLIToCode initOutput eng \<lparr>fbLogger = None, events = [NewTopicLogger runId]\<rparr> =
      ((exitCode, err), s)"
  shows "logged_errors (trace (InitEnterpriseCLI runId initOutput eng)) =
      (case err of
         None \<Rightarrow> []
       | Some e \<Rightarrow>
           [case captured (events s) of
              Some l \<Rightarrow> Logger_Error l (Error_msg e)
            | None \<Rightarrow> Stderr_Println (Error_msg e)]) \<and>
    trace (InitEnterpriseCLI runId initOutput eng) =
      events s @ logged_errors (trace (InitEnterpriseCLI runId initOutput eng)) @
      [TriggerEventStopped err, Close Background] \<and>
    (captured (events s) = None \<longleftrightarrow> (\<forall>l. SetFallbackLogger l \<notin> set (events s)))"
proof -
  note t = trace_InitEnterpriseCLI [OF assms] and e = engine_events [OF assms]
  have "logged_errors (trace (InitEnterpriseCLI runId initOutput eng)) =
      (case err of
         None \<Rightarrow> []
       | Some e \<Rightarrow>
           [case captured (events s) of
              Some l \<Rightarrow> Logger_Error l (Error_msg e)
            | None \<Rightarrow> Stderr_Println (Error_msg e)])"
    using t e by (simp split: option.splits)
  with t show ?thesis
    by (simp add: captured_None_iff)
qed

theorem terminal_error_logged_witness:
  "logged_errors (trace (InitEnterpriseCLI ''run1'' (\<lambda>c. None) failing_engine)) =
     [Logger_Error 7 ''lint failed''] \<and>
   logged_errors (trace (InitEnterpriseCLI ''run1'' (\<lambda>c. None)
     (Returns 1 (Some (GoError ''no config''))))) = [Stderr_Println ''no config'']"
  using terminal_error_logged [OF run_failing_engine]
    terminal_error_logged [OF run_Returns [of "\<lambda>c. None" 1 "Some (GoError ''no config'')" "''run1''"]]
  by simp

text \<open>
  The claim as first stated fails on a run that succeeds: the engine returns a nil error,
  and neither the captured logger nor standard error receives a line.
\<close>

theorem terminal_error_logged_counterexample:
  "trace (InitEnterpriseCLI ''run1'' (\<lambda>c. None) (OnLoggerInit 7 (Returns 0 None))) =
     [NewTopicLogger ''run1'', SetFallbackLogger 7, TriggerEventStopped None, Close Background] \<and>
   logged_errors (trace (InitEnterpriseCLI ''run1'' (\<lambda>c. None) (OnLoggerInit 7 (Returns 0 None)))) = [] \<and>
   trace (InitEnterpriseCLI ''run1'' (\<lambda>c. None) (Returns 0 None)) =
     [NewTopicLogger ''run1'', TriggerEventStopped None, Close Background] \<and>
   logged_errors (trace (InitEnterpriseCLI ''run1'' (\<lambda>c. None) (Returns 0 None))) = []"
  by (simp add: InitEnterpriseCLI_def emit_def)




text \<open>
  C9. When the engine returns the exit code 0, \<open>InitEnterpriseCLI\<close> returns to its
  caller and the exit status of the process is 0; when the engine returns another code,
  \<open>os.Exit\<close> is called with exactly that code.
\<close>

theorem exit_code_propagated:
  assumes "RunCLIToCode initOutput eng \<lparr>fbLogger = None, events = [NewTopicLogger runId]\<rparr> =
      ((exitCode, err), s)"
  shows "(exitCode = 0 \<longrightarrow> ending (InitEnterpriseCLI runId initOutput eng) = ReturnsToCaller) \<and>
    (exitCode \<noteq> 0 \<longrightarrow> ending (InitEnterpriseCLI runId initOutput eng) = OsExit exitCode) \<and>
    exit_status (ending (InitEnterpriseCLI runId initOutput eng)) = exitCode"
  using assms by (simp add: InitEnterpriseCLI_def Let_def)

theorem exit_code_propagated_witness:
  "ending (InitEnterpriseCLI ''run1'' (\<lambda>c. None) failing_engine) = OsExit 2 \<and>
   ending (InitEnterpriseCLI ''run1'' (\<lambda>c. None) (Returns 0 None)) = ReturnsToCaller"
  using exit_code_propagated [OF run_failing_engine]
    exit_code_propagated [OF run_Returns [of "\<lambda>c. None" 0 None "''run1''"]]
  by simp

end
